theory Spec2Isabelle
  imports Main "HOL-Library.List_Lexorder" "HOL-Library.Char_ord" "HOL-Library.Multiset"
begin

section \<open>Data model of package stack\<close>

text \<open>
  The structs of \<^verbatim>\<open>stack.go\<close> become records with the fields of the source.
  Go strings are byte strings; \<^typ>\<open>string\<close> is a list of bytes and, with the
  lexicographic order on lists over the byte order on characters, \<open><\<close> on
  \<^typ>\<open>string\<close> is Go's string comparison. \<^verbatim>\<open>Goroutine\<close> embeds
  \<^verbatim>\<open>Signature\<close>, which is record extension: the promoted fields
  (\<^verbatim>\<open>goroutine.Stack\<close>) are the selectors of the parent record and
  \<^verbatim>\<open>routine.Signature\<close> is \<open>Signature.truncate\<close>.
\<close>

record Function =
  Raw :: string

record Call =
  SourcePath :: string
  Line :: int
  Func :: Function
  Args :: string

record Signature =
  State :: string
  Stack :: "Call list"
  CreatedBy :: Call

record Goroutine = Signature +
  ID :: int
  First :: bool

text \<open>The zero value of a \<^verbatim>\<open>Call\<close>, which a composite literal leaves in the
  fields it does not name.\<close>

definition zeroCall :: Call where
  "zeroCall = \<lparr>SourcePath = [], Line = 0, Func = \<lparr>Raw = []\<rparr>, Args = []\<rparr>"

text \<open>A run-time panic of the Go program: the function does not return.\<close>

datatype panic = IndexOutOfRange

section \<open>The library functions the package calls\<close>

text \<open>
  \<^verbatim>\<open>strings.Join\<close>, \<^verbatim>\<open>strings.SplitN\<close> with a one-byte separator and a
  limit of two, and \<^verbatim>\<open>filepath.Base\<close>, \<^verbatim>\<open>Dir\<close>, \<^verbatim>\<open>Clean\<close>,
  \<^verbatim>\<open>Join\<close> of the Go standard library on a Unix system (separator \<open>/\<close>, no
  volume names), as their documentation describes them.
\<close>

definition slash :: char where
  "slash = CHR ''/''"

definition dot :: char where
  "dot = CHR ''.''"

fun strings_Join :: "string list \<Rightarrow> string \<Rightarrow> string" where
  "strings_Join [] sep = []"
| "strings_Join [e] sep = e"
| "strings_Join (e # es) sep = e @ sep @ strings_Join es sep"

definition SplitN2 :: "string \<Rightarrow> char \<Rightarrow> string list" where
  "SplitN2 s sep =
     (if sep \<in> set s
      then [takeWhile (\<lambda>c. c \<noteq> sep) s, tl (dropWhile (\<lambda>c. c \<noteq> sep) s)]
      else [s])"

fun splitSlash :: "string \<Rightarrow> string list" where
  "splitSlash [] = [[]]"
| "splitSlash (c # cs) =
     (if c = slash then [] # splitSlash cs
      else (case splitSlash cs of [] \<Rightarrow> [[c]] | e # es \<Rightarrow> (c # e) # es))"

definition cleanElem :: "bool \<Rightarrow> string list \<Rightarrow> string \<Rightarrow> string list" where
  "cleanElem rooted st e =
     (if e = [] \<or> e = ''.'' then st
      else if e = ''..'' then
        (if st \<noteq> [] \<and> last st \<noteq> ''..'' then butlast st
         else if rooted then st
         else st @ [e])
      else st @ [e])"

definition Clean :: "string \<Rightarrow> string" where
  "Clean path =
     (let rooted = (path \<noteq> [] \<and> hd path = slash);
          body = strings_Join (foldl (cleanElem rooted) [] (splitSlash path)) [slash];
          r = (if rooted then slash # body else body)
      in if r = [] then ''.'' else r)"

definition Base :: "string \<Rightarrow> string" where
  "Base path =
     (if path = [] then ''.''
      else
        let p = rev (dropWhile (\<lambda>c. c = slash) (rev path));
            e = rev (takeWhile (\<lambda>c. c \<noteq> slash) (rev p))
        in if e = [] then [slash] else e)"

definition Dir :: "string \<Rightarrow> string" where
  "Dir path = Clean (rev (dropWhile (\<lambda>c. c \<noteq> slash) (rev path)))"

fun Join :: "string list \<Rightarrow> string" where
  "Join [] = []"
| "Join (e # es) = (if e \<noteq> [] then Clean (strings_Join (e # es) [slash]) else Join es)"

section \<open>Function and Call accessors\<close>

text \<open>
  \<^verbatim>\<open>Function.Name\<close> indexes \<^verbatim>\<open>parts[1]\<close> of the result of
  \<^verbatim>\<open>SplitN\<close> without looking at its length; the index expression panics
  when the slice has one element.
\<close>

definition Name :: "Function \<Rightarrow> panic + string" where
  "Name f =
     (let parts = SplitN2 (Base (Raw f)) dot
      in if 1 < length parts then Inr (parts ! 1) else Inl IndexOutOfRange)"

definition SourceName :: "Call \<Rightarrow> string" where
  "SourceName c = Base (SourcePath c)"

definition PkgSource :: "Call \<Rightarrow> string" where
  "PkgSource c = Join [Base (Dir (SourcePath c)), SourceName c]"

section \<open>Signature equality and ordering\<close>

text \<open>
  \<^verbatim>\<open>Equal\<close> compares \<^verbatim>\<open>Call\<close> structs with \<open>!=\<close>, which is equality
  of all four fields. Both loops index the two stacks with the same index once the
  lengths are known to agree, so they walk the two lists together; the last equation
  is the end of the range.
\<close>

fun Equal_loop :: "Call list \<Rightarrow> Call list \<Rightarrow> bool" where
  "Equal_loop (a # as) (b # bs) = (if a \<noteq> b then False else Equal_loop as bs)"
| "Equal_loop _ _ = True"

definition Equal :: "Signature \<Rightarrow> Signature \<Rightarrow> bool" where
  "Equal l r =
     (if State l \<noteq> State r \<or> length (Stack l) \<noteq> length (Stack r) \<or> CreatedBy l \<noteq> CreatedBy r
      then False
      else Equal_loop (Stack l) (Stack r))"

fun Less_loop :: "Call list \<Rightarrow> Call list \<Rightarrow> bool" where
  "Less_loop (a # as) (b # bs) =
     (if Raw (Func a) < Raw (Func b) then True
      else if Raw (Func a) > Raw (Func b) then True
      else if PkgSource a < PkgSource b then True
      else if PkgSource a > PkgSource b then True
      else if Line a < Line b then True
      else if Line a > Line b then True
      else Less_loop as bs)"
| "Less_loop _ _ = False"

definition Less :: "Signature \<Rightarrow> Signature \<Rightarrow> bool" where
  "Less l r =
     (if State l < State r then True
      else if State l > State r then False
      else if length (Stack l) < length (Stack r) then True
      else if length (Stack l) > length (Stack r) then False
      else Less_loop (Stack l) (Stack r))"

text \<open>
  The equality the specification describes, for comparison with \<open>Equal\<close>: state,
  stack length and the per-frame triples (function, parent directory and base name
  of the source path, line), and the creator field for field. The
  \<^verbatim>\<open>Signature\<close> of the source has no elision flag, no locked flag and no sleep
  range, so these take no part on either side.
\<close>

definition Equal_spec :: "Signature \<Rightarrow> Signature \<Rightarrow> bool" where
  "Equal_spec l r \<longleftrightarrow>
     State l = State r \<and> length (Stack l) = length (Stack r) \<and>
     list_all2 (\<lambda>a b. Raw (Func a) = Raw (Func b) \<and> PkgSource a = PkgSource b \<and> Line a = Line b)
       (Stack l) (Stack r) \<and>
     CreatedBy l = CreatedBy r"

section \<open>The line shapes\<close>

text \<open>
  The four regular expressions of the package, each as the function that
  \<^verbatim>\<open>FindStringSubmatch\<close> computes on a line: \<open>None\<close> for no match,
  otherwise the captured groups. Go's \<^verbatim>\<open>regexp\<close> gives the leftmost match
  that a backtracking engine finds first, \<open>.\<close> does not match a newline, \<open>\d\<close> is
  an ASCII digit, and \<open>$\<close> is the end of the text.
  \<^item> \<^verbatim>\<open>^goroutine (\d+) \[([^\]]+)\]:$\<close>: the digits end at the blank and the
    state ends at the first \<open>]\<close>, so both groups are maximal runs.
  \<^item> \<^verbatim>\<open>^(?:\t| +)(<autogenerated>|.+\.go):(\d+)(?:| \+0x[0-9a-f]+)$\<close> (the source escapes
    the angle brackets and the colon, which stand for themselves): what follows
    the colon holds no colon, so the colon is the last one of the line
    (\<open>reFile_tail\<close> is the part after it); before it, the indentation is one tab
    or the longest run of blanks that leaves a path (\<open>reFile_front\<close> tries the
    run lengths from the longest down, as the greedy \<open> +\<close> does).
  \<^item> \<^verbatim>\<open>^created by (.+)$\<close>.
  \<^item> \<^verbatim>\<open>^(.+)\((.*)\)$\<close>: the greedy first group ends at the last \<open>(\<close> before
    the closing parenthesis, and is not empty.
\<close>

definition newline :: char where
  "newline = CHR 0x0A"

definition tab :: char where
  "tab = CHR 0x09"

definition space :: char where
  "space = CHR '' ''"

definition carriage :: char where
  "carriage = CHR 0x0D"

definition isDigit :: "char \<Rightarrow> bool" where
  "isDigit c \<longleftrightarrow> CHR ''0'' \<le> c \<and> c \<le> CHR ''9''"

definition isHexLower :: "char \<Rightarrow> bool" where
  "isHexLower c \<longleftrightarrow> isDigit c \<or> (CHR ''a'' \<le> c \<and> c \<le> CHR ''f'')"

definition stripPrefix :: "string \<Rightarrow> string \<Rightarrow> string option" where
  "stripPrefix p s = (if take (length p) s = p then Some (drop (length p) s) else None)"

definition reRoutineHeader :: "string \<Rightarrow> (string \<times> string) option" where
  "reRoutineHeader line =
     (case stripPrefix ''goroutine '' line of
        None \<Rightarrow> None
      | Some r1 \<Rightarrow>
          let ds = takeWhile isDigit r1; r2 = dropWhile isDigit r1
          in if ds = [] then None
             else (case stripPrefix '' ['' r2 of
                     None \<Rightarrow> None
                   | Some r3 \<Rightarrow>
                       let st = takeWhile (\<lambda>c. c \<noteq> CHR '']'') r3;
                           r4 = dropWhile (\<lambda>c. c \<noteq> CHR '']'') r3
                       in if st \<noteq> [] \<and> r4 = '']:'' then Some (ds, st) else None))"

definition reFile_tail :: "string \<Rightarrow> string option" where
  "reFile_tail t =
     (let ds = takeWhile isDigit t; r = dropWhile isDigit t
      in if ds = [] then None
         else if r = [] then Some ds
         else (case stripPrefix '' +0x'' r of
                 None \<Rightarrow> None
               | Some h \<Rightarrow> if h \<noteq> [] \<and> list_all isHexLower h then Some ds else None))"

definition matchPath :: "string \<Rightarrow> bool" where
  "matchPath p \<longleftrightarrow>
     p = ''<autogenerated>'' \<or>
     (4 \<le> length p \<and> drop (length p - 3) p = ''.go'' \<and> newline \<notin> set p)"

definition reFile_front :: "string \<Rightarrow> string option" where
  "reFile_front f =
     (case f of
        [] \<Rightarrow> None
      | c # p \<Rightarrow>
          if c = tab then (if matchPath p then Some p else None)
          else if c = space then
            map_option (\<lambda>k. drop k f)
              (List.find (\<lambda>k. matchPath (drop k f))
                 (rev [1..<Suc (length (takeWhile (\<lambda>c. c = space) f))]))
          else None)"

definition reFile :: "string \<Rightarrow> (string \<times> string) option" where
  "reFile line =
     (if CHR '':'' \<notin> set line then None
      else
        let front = rev (tl (dropWhile (\<lambda>c. c \<noteq> CHR '':'') (rev line)));
            tail = rev (takeWhile (\<lambda>c. c \<noteq> CHR '':'') (rev line))
        in (case reFile_tail tail of
              None \<Rightarrow> None
            | Some ds \<Rightarrow>
                (case reFile_front front of
                   None \<Rightarrow> None
                 | Some p \<Rightarrow> Some (p, ds))))"

definition reCreated :: "string \<Rightarrow> string option" where
  "reCreated line =
     (case stripPrefix ''created by '' line of
        None \<Rightarrow> None
      | Some f \<Rightarrow> if f \<noteq> [] \<and> newline \<notin> set f then Some f else None)"

definition reFunc :: "string \<Rightarrow> (string \<times> string) option" where
  "reFunc line =
     (if line = [] \<or> last line \<noteq> CHR '')'' \<or> newline \<in> set line then None
      else
        let body = butlast line;
            a = rev (takeWhile (\<lambda>c. c \<noteq> CHR ''('') (rev body));
            f = rev (tl (dropWhile (\<lambda>c. c \<noteq> CHR ''('') (rev body)))
        in if CHR ''('' \<in> set body \<and> f \<noteq> [] then Some (f, a) else None)"

text \<open>
  \<^verbatim>\<open>strconv.Atoi\<close> for an \<^verbatim>\<open>int\<close> of 64 bits: an optional sign and
  decimal digits, an error when there is no digit, another character, or a value
  outside the range of the type.
\<close>

definition digitVal :: "char \<Rightarrow> int" where
  "digitVal c = int (of_char c) - 48"

definition decimal :: "string \<Rightarrow> int" where
  "decimal ds = foldl (\<lambda>a c. 10 * a + digitVal c) 0 ds"

definition Atoi :: "string \<Rightarrow> int option" where
  "Atoi s =
     (let neg = (s \<noteq> [] \<and> hd s = CHR ''-'');
          ds = (if s \<noteq> [] \<and> (hd s = CHR ''+'' \<or> hd s = CHR ''-'') then tl s else s)
      in if ds = [] \<or> \<not> list_all isDigit ds then None
         else
           let n = (if neg then - decimal ds else decimal ds)
           in if - (2 ^ 63) \<le> n \<and> n \<le> 2 ^ 63 - 1 then Some n else None)"

section \<open>The line scanner\<close>

text \<open>
  \<^verbatim>\<open>bufio.NewScanner\<close> with \<^verbatim>\<open>bufio.ScanLines\<close> and the default buffer.
  The reader is a finite byte string followed by end of file. A token is the text
  up to the next newline, without the newline and without one carriage return
  before it; text after the last newline is a last token when it is not empty. The
  buffer grows to \<^verbatim>\<open>MaxScanTokenSize\<close> bytes and no further: when that many
  bytes hold no newline, \<^verbatim>\<open>Scan\<close> returns false and \<^verbatim>\<open>Err\<close> returns
  \<^verbatim>\<open>ErrTooLong\<close>. \<open>scanTokens\<close> gives the tokens that the calls of
  \<^verbatim>\<open>Scan\<close> yield in turn and the value of \<^verbatim>\<open>Err\<close> after the last call.
\<close>

datatype error = ErrTooLong | ErrParseInt string

definition Error :: "error \<Rightarrow> string" where
  "Error e =
     (case e of
        ErrTooLong \<Rightarrow> ''bufio.Scanner: token too long''
      | ErrParseInt line \<Rightarrow> ''failed to parse int on line: '' @ [CHR 0x22] @ line @ [CHR 0x22])"

definition MaxScanTokenSize :: nat where
  "MaxScanTokenSize = 64 * 1024"

definition dropCR :: "string \<Rightarrow> string" where
  "dropCR t = (if t \<noteq> [] \<and> last t = carriage then butlast t else t)"

function scanTokens :: "string \<Rightarrow> string list \<times> error option" where
  "scanTokens input =
     (if input = [] then ([], None)
      else
        let raw = takeWhile (\<lambda>c. c \<noteq> newline) input
        in if MaxScanTokenSize \<le> length raw then ([], Some ErrTooLong)
           else
             (case scanTokens (drop (Suc (length raw)) input) of
                (ts, e) \<Rightarrow> (dropCR raw # ts, e)))"
  by pat_completeness auto
termination
  by (relation "measure length") auto

section \<open>ParseDump\<close>

text \<open>
  The local variables of \<^verbatim>\<open>ParseDump\<close> and the bytes written to \<^verbatim>\<open>out\<close>
  (the results of \<^verbatim>\<open>io.WriteString\<close> are dropped by the source). The pointer
  \<^verbatim>\<open>goroutine\<close> is nil or the address of an element of \<^verbatim>\<open>goroutines\<close>: it is
  the index of that element here. It is set to the last element when a header is
  read, and the slice is appended to only while the pointer is nil, so no append
  moves the element it points to.
\<close>

record parse_state =
  goroutines :: "Goroutine list"
  goroutine :: "nat option"
  created :: bool
  out :: string

text \<open>How a call ends: it returns the two results, or it panics.\<close>

datatype outcome = Returns "Goroutine list" "error option" | Panics panic

definition init_state :: parse_state where
  "init_state = \<lparr>goroutines = [], goroutine = None, created = False, out = []\<rparr>"

definition WriteString :: "parse_state \<Rightarrow> string \<Rightarrow> parse_state" where
  "WriteString s x = s\<lparr>out := out s @ x\<rparr>"

definition setCreatedByFile :: "string \<Rightarrow> int \<Rightarrow> Goroutine \<Rightarrow> Goroutine" where
  "setCreatedByFile path num g = g\<lparr>CreatedBy := (CreatedBy g)\<lparr>SourcePath := path, Line := num\<rparr>\<rparr>"

definition setStackFile :: "string \<Rightarrow> int \<Rightarrow> Goroutine \<Rightarrow> Goroutine" where
  "setStackFile path num g =
     g\<lparr>Stack := (Stack g)[length (Stack g) - 1 :=
                     (Stack g ! (length (Stack g) - 1))\<lparr>SourcePath := path, Line := num\<rparr>]\<rparr>"

definition setCreatedByFunc :: "string \<Rightarrow> Goroutine \<Rightarrow> Goroutine" where
  "setCreatedByFunc f g = g\<lparr>CreatedBy := (CreatedBy g)\<lparr>Func := \<lparr>Raw = f\<rparr>\<rparr>\<rparr>"

definition appendCall :: "string \<Rightarrow> string \<Rightarrow> Goroutine \<Rightarrow> Goroutine" where
  "appendCall f a g =
     g\<lparr>Stack := Stack g @ [\<lparr>SourcePath = [], Line = 0, Func = \<lparr>Raw = f\<rparr>, Args = a\<rparr>]\<rparr>"

definition newGoroutine :: "string \<Rightarrow> int \<Rightarrow> bool \<Rightarrow> Goroutine" where
  "newGoroutine st n b =
     \<lparr>State = st, Stack = [], CreatedBy = zeroCall, ID = n, First = b\<rparr>"

text \<open>
  One pass through the body of the \<^verbatim>\<open>for scanner.Scan()\<close> loop on the token
  \<open>line\<close>: \<open>Inr\<close> is the state at the next iteration, \<open>Inl\<close> is the way the call
  ends in this iteration, with what \<^verbatim>\<open>out\<close> then holds. \<open>onHeader\<close> is the
  branch for a nil pointer, \<open>onFrame\<close> the rest of the body, where the pointer is
  \<open>i\<close>. Indexing the empty stack with \<open>len - 1\<close> panics.
\<close>

definition onHeader :: "parse_state \<Rightarrow> string \<Rightarrow> parse_state" where
  "onHeader s line =
     (case reRoutineHeader line of
        None \<Rightarrow> WriteString s (line @ [newline])
      | Some (m1, m2) \<Rightarrow>
          (case Atoi m1 of
             None \<Rightarrow> WriteString s (line @ [newline])
           | Some n \<Rightarrow>
               s\<lparr>goroutines := goroutines s @ [newGoroutine m2 n (length (goroutines s) = 0)],
                 goroutine := Some (length (goroutines s))\<rparr>))"

definition onFrame :: "parse_state \<Rightarrow> nat \<Rightarrow> string \<Rightarrow> (outcome \<times> string) + parse_state" where
  "onFrame s i line =
     (case reFile line of
        Some (m1, m2) \<Rightarrow>
          (case Atoi m2 of
             None \<Rightarrow> Inl (Returns (goroutines s) (Some (ErrParseInt line)), out s)
           | Some num \<Rightarrow>
               if created s then
                 Inr (s\<lparr>created := False,
                        goroutines := (goroutines s)[i := setCreatedByFile m1 num (goroutines s ! i)]\<rparr>)
               else if Stack (goroutines s ! i) = [] then Inl (Panics IndexOutOfRange, out s)
               else Inr (s\<lparr>goroutines := (goroutines s)[i := setStackFile m1 num (goroutines s ! i)]\<rparr>))
      | None \<Rightarrow>
          (case reCreated line of
             Some m1 \<Rightarrow>
               Inr (s\<lparr>created := True,
                      goroutines := (goroutines s)[i := setCreatedByFunc m1 (goroutines s ! i)]\<rparr>)
           | None \<Rightarrow>
               (case reFunc line of
                  Some (m1, m2) \<Rightarrow>
                    Inr (s\<lparr>goroutines := (goroutines s)[i := appendCall m1 m2 (goroutines s ! i)]\<rparr>)
                | None \<Rightarrow> Inr ((WriteString s (line @ [newline]))\<lparr>goroutine := None\<rparr>))))"

definition step :: "parse_state \<Rightarrow> string \<Rightarrow> (outcome \<times> string) + parse_state" where
  "step s line =
     (if length line = 0 then
        Inr ((if goroutine s = None then WriteString s (line @ [newline]) else s)\<lparr>goroutine := None\<rparr>)
      else
        (case goroutine s of
           None \<Rightarrow> Inr (onHeader s line)
         | Some i \<Rightarrow> onFrame s i line))"

fun run :: "parse_state \<Rightarrow> string list \<Rightarrow> (outcome \<times> string) + parse_state" where
  "run s [] = Inr s"
| "run s (line # ls) = (case step s line of Inl r \<Rightarrow> Inl r | Inr s' \<Rightarrow> run s' ls)"

text \<open>
  The whole function: the loop over the tokens, and after the last token the
  return of the slice with \<^verbatim>\<open>scanner.Err()\<close>. The second component is what
  was written to \<^verbatim>\<open>out\<close>.
\<close>

definition ParseDump :: "string \<Rightarrow> outcome \<times> string" where
  "ParseDump input =
     (case scanTokens input of
        (ts, e) \<Rightarrow>
          (case run init_state ts of
             Inl r \<Rightarrow> r
           | Inr s \<Rightarrow> (Returns (goroutines s) e, out s)))"

text \<open>The text of a dump from its lines, as the tests of the package build it.\<close>

definition joinLines :: "string list \<Rightarrow> string" where
  "joinLines ls = strings_Join ls [newline]"

section \<open>Bucketize\<close>

text \<open>
  The map from \<^verbatim>\<open>*Signature\<close> to the routines of the bucket. A key is a pointer
  to a fresh copy of a signature, so two entries never share a key and an entry
  is identified by its position in the list, which is the order of insertion.
  The inner loop of the source ranges over the keys in the order the Go map
  chooses and takes the first key that is \<open>Equal\<close>; \<open>addRoutine\<close> takes the
  first in order of insertion. The keys are pairwise not \<open>Equal\<close>
  (\<open>Bucketize_keys\<close> below), so at most one key qualifies and the order of the
  range does not show in the result.
\<close>

type_synonym buckets = "(Signature \<times> Goroutine list) list"

fun addRoutine :: "buckets \<Rightarrow> Goroutine \<Rightarrow> buckets" where
  "addRoutine [] routine = [(Signature.truncate routine, [routine])]"
| "addRoutine ((key, rs) # bs) routine =
     (if Equal key (Signature.truncate routine) then (key, rs @ [routine]) # bs
      else (key, rs) # addRoutine bs routine)"

definition Bucketize :: "Goroutine list \<Rightarrow> buckets" where
  "Bucketize gs = foldl addRoutine [] gs"

section \<open>An invariant of the loop of ParseDump\<close>

text \<open>
  What holds of the local variables at the head of every iteration: a routine is
  marked first exactly when it is at index 0 of the slice, and the pointer, when it
  is not nil, is the address of an element of the slice.
\<close>

definition loop_inv :: "parse_state \<Rightarrow> bool" where
  "loop_inv s \<longleftrightarrow>
     (\<forall>k < length (goroutines s). First (goroutines s ! k) = (k = 0)) \<and>
     (\<forall>i. goroutine s = Some i \<longrightarrow> i < length (goroutines s))"

section \<open>Example values\<close>

text \<open>
  Three signatures of one frame each. \<open>sigB\<close> differs from \<open>sigA\<close> in the function
  of the frame only; \<open>sigA'\<close> differs from \<open>sigA\<close> in the arguments of the frame and
  in the directories of the source path above the parent directory.
\<close>

definition sigA :: Signature where
  "sigA = \<lparr>State = ''running'',
            Stack = [\<lparr>SourcePath = ''/gopath/src/pkg/a.go'', Line = 10,
                      Func = \<lparr>Raw = ''main.a''\<rparr>, Args = ''0x1''\<rparr>],
            CreatedBy = zeroCall\<rparr>"

definition sigB :: Signature where
  "sigB = \<lparr>State = ''running'',
            Stack = [\<lparr>SourcePath = ''/gopath/src/pkg/a.go'', Line = 10,
                      Func = \<lparr>Raw = ''main.b''\<rparr>, Args = ''0x1''\<rparr>],
            CreatedBy = zeroCall\<rparr>"

definition sigA' :: Signature where
  "sigA' = \<lparr>State = ''running'',
             Stack = [\<lparr>SourcePath = ''/other/src/pkg/a.go'', Line = 10,
                       Func = \<lparr>Raw = ''main.a''\<rparr>, Args = ''0x2''\<rparr>],
             CreatedBy = zeroCall\<rparr>"

text \<open>Three routines: the first and the third have the same signature.\<close>

definition routine1 :: Goroutine where
  "routine1 = \<lparr>State = ''running'',
                Stack = [\<lparr>SourcePath = ''/gopath/src/pkg/a.go'', Line = 10,
                          Func = \<lparr>Raw = ''main.a''\<rparr>, Args = ''0x1''\<rparr>],
                CreatedBy = zeroCall, ID = 1, First = True\<rparr>"

definition routine2 :: Goroutine where
  "routine2 = \<lparr>State = ''chan send'',
                Stack = [\<lparr>SourcePath = ''/gopath/src/pkg/a.go'', Line = 10,
                          Func = \<lparr>Raw = ''main.a''\<rparr>, Args = ''0x1''\<rparr>],
                CreatedBy = zeroCall, ID = 2, First = False\<rparr>"

definition routine3 :: Goroutine where
  "routine3 = \<lparr>State = ''running'',
                Stack = [\<lparr>SourcePath = ''/gopath/src/pkg/a.go'', Line = 10,
                          Func = \<lparr>Raw = ''main.a''\<rparr>, Args = ''0x1''\<rparr>],
                CreatedBy = zeroCall, ID = 3, First = False\<rparr>"

text \<open>
  The dump of the test \<^verbatim>\<open>TestParseDumpAsm\<close> of the package: one routine, whose
  frame is in an assembly file and whose file line ends in frame and stack
  pointers.
\<close>

definition asm_line :: string where
  "asm_line = tab # ''/goroot/src/runtime/asm_amd64.s:198 fp=0xc20cfb80d8 sp=0xc20cfb80d0''"

definition asm_input :: string where
  "asm_input = joinLines [''panic: reflect.Set: value of type'', '''',
     ''goroutine 16 [garbage collection]:'', ''runtime.switchtoM()'', asm_line, '''']"

text \<open>
  A line of one byte more than the scanner's buffer takes, followed by a dump of one
  routine (the shape of the test \<^verbatim>\<open>TestParseDump1\<close>), and a single line of as many
  blanks as the buffer takes.
\<close>

definition long_line_input :: string where
  "long_line_input = joinLines [replicate (MaxScanTokenSize + 1) (CHR ''a''),
     ''panic: reflect.Set: value of type'', '''', ''goroutine 1 [running]:'', ''main.main()'',
     tab # ''/gopath/src/github.com/maruel/panicparse/stack/stack.go:428 +0x27'', '''']"

definition blank_line_input :: string where
  "blank_line_input = replicate MaxScanTokenSize space"

text \<open>A routine whose file line has a line number beyond 64 bits, followed by more text.\<close>

definition overflow_line :: string where
  "overflow_line = tab # ''/gopath/src/pkg/stack.go:12345678901234567890''"

definition overflow_input :: string where
  "overflow_input = joinLines [''goroutine 1 [running]:'', ''main.recurseType()'', overflow_line,
     ''main.main()'', '''']"

text \<open>Two routines with one frame each, and a routine header followed by two empty lines.\<close>

definition two_routines_input :: string where
  "two_routines_input = joinLines [''goroutine 1 [running]:'', ''main.a()'', tab # ''/x/a.go:1'', '''',
     ''goroutine 2 [chan send]:'', ''main.b()'', tab # ''/x/b.go:2'', '''']"

definition two_blanks_input :: string where
  "two_blanks_input = joinLines [''goroutine 1 [running]:'', '''', '''', '''']"

section \<open>Properties of the signature order and equality\<close>

lemma Less_loop_irrefl: "\<not> Less_loop xs xs"
  by (induction xs) simp_all

lemma Less_irrefl: "\<not> Less s s"
  by (simp add: Less_def Less_loop_irrefl)

text \<open>
  Claim C1 asks for a strict total order: \<open>Less\<close> never holds in both directions.
  The loop of \<open>Less\<close> returns true in the branch for a greater function name as
  well as in the branch for a smaller one (and likewise for the source and the
  line), so for \<open>sigA\<close> and \<open>sigB\<close>, which differ in the function of their frame,
  \<open>Less\<close> holds in both directions.
\<close>

theorem Less_both_directions: "Less sigA sigB \<and> Less sigB sigA"
  by (simp add: Less_def sigA_def sigB_def)

lemma Equal_loop_eq: "length xs = length ys \<Longrightarrow> Equal_loop xs ys \<longleftrightarrow> xs = ys"
  by (induction xs ys rule: Equal_loop.induct) auto

lemma Equal_eq: "Equal l r \<longleftrightarrow> l = r"
  by (auto simp: Equal_def Equal_loop_eq intro: Signature.equality)

lemma Equal_refl: "Equal s s"
  by (simp add: Equal_eq)

lemma Call_eq_iff:
  "(a :: Call) = b \<longleftrightarrow>
     SourcePath a = SourcePath b \<and> Line a = Line b \<and> Raw (Func a) = Raw (Func b) \<and> Args a = Args b"
  by (auto intro: Call.equality Function.equality)

text \<open>
  Claim C3 as the specification states it: equality is agreement of the state, the
  stack length, the per-frame triples and the creator, whatever the arguments and
  the upper directories of the source paths. \<open>sigA\<close> and \<open>sigA'\<close> agree on all of
  these and \<open>Equal\<close> is false for them: it compares the whole frames.
\<close>

theorem Equal_spec_counterexample: "Equal_spec sigA sigA' \<and> \<not> Equal sigA sigA'"
  by (simp add: Equal_spec_def Equal_def sigA_def sigA'_def PkgSource_def SourceName_def
      Base_def Dir_def Clean_def cleanElem_def slash_def)

text \<open>
  Claim C3, amended: two signatures are \<open>Equal\<close> if and only if their states and
  stack lengths agree, every pair of frames at the same index agrees in all four
  fields (source path in full, line, function, arguments), and the creators agree
  in all four fields.
\<close>

theorem Equal_iff:
  "Equal l r \<longleftrightarrow>
     State l = State r \<and> length (Stack l) = length (Stack r) \<and>
     (\<forall>i < length (Stack l).
        SourcePath (Stack l ! i) = SourcePath (Stack r ! i) \<and>
        Line (Stack l ! i) = Line (Stack r ! i) \<and>
        Raw (Func (Stack l ! i)) = Raw (Func (Stack r ! i)) \<and>
        Args (Stack l ! i) = Args (Stack r ! i)) \<and>
     SourcePath (CreatedBy l) = SourcePath (CreatedBy r) \<and>
     Line (CreatedBy l) = Line (CreatedBy r) \<and>
     Raw (Func (CreatedBy l)) = Raw (Func (CreatedBy r)) \<and>
     Args (CreatedBy l) = Args (CreatedBy r)"
proof -
  have "Equal l r \<longleftrightarrow> State l = State r \<and> Stack l = Stack r \<and> CreatedBy l = CreatedBy r"
    by (auto simp: Equal_eq intro: Signature.equality)
  also have "Stack l = Stack r \<longleftrightarrow>
      length (Stack l) = length (Stack r) \<and> (\<forall>i < length (Stack l). Stack l ! i = Stack r ! i)"
    by (auto simp: list_eq_iff_nth_eq)
  finally show ?thesis
    by (simp add: Call_eq_iff)
qed

theorem Equal_iff_witness: "Equal sigA sigA \<and> \<not> Equal sigA sigA'"
  using Equal_iff [of sigA sigA] Equal_iff [of sigA sigA']
  by (simp add: sigA_def sigA'_def)

section \<open>The Name accessor\<close>

text \<open>
  Claim C4 asks that \<open>Name\<close> be defined for every symbol and be empty for a symbol
  without a dot. For the symbol \<open>schedule\<close> the split gives one part and the
  index expression \<^verbatim>\<open>parts[1]\<close> panics.
\<close>

theorem Name_dotless_panics: "Name \<lparr>Raw = ''schedule''\<rparr> = Inl IndexOutOfRange"
  by (simp add: Name_def Base_def SplitN2_def slash_def dot_def)

section \<open>Bucketize is a partition\<close>

lemma addRoutine_sizes:
  "(\<Sum>b\<leftarrow>addRoutine bs g. length (snd b)) = Suc (\<Sum>b\<leftarrow>bs. length (snd b))"
  by (induction bs g rule: addRoutine.induct) auto

lemma addRoutine_mset:
  "mset (concat (map snd (addRoutine bs g))) = add_mset g (mset (concat (map snd bs)))"
  by (induction bs g rule: addRoutine.induct) auto

lemma addRoutine_members:
  assumes "\<forall>(key, rs) \<in> set bs. \<forall>r \<in> set rs. Equal key (Signature.truncate r)"
  shows "\<forall>(key, rs) \<in> set (addRoutine bs g). \<forall>r \<in> set rs. Equal key (Signature.truncate r)"
  using assms by (induction bs g rule: addRoutine.induct) (auto simp: Equal_refl)

lemma addRoutine_keys:
  "map fst (addRoutine bs g) =
     (if Signature.truncate g \<in> fst ` set bs then map fst bs
      else map fst bs @ [Signature.truncate g])"
  by (induction bs g rule: addRoutine.induct) (auto simp: Equal_eq)

lemma foldl_addRoutine_sizes:
  "(\<Sum>b\<leftarrow>foldl addRoutine bs gs. length (snd b)) = (\<Sum>b\<leftarrow>bs. length (snd b)) + length gs"
  by (induction gs arbitrary: bs) (simp_all add: addRoutine_sizes)

lemma foldl_addRoutine_mset:
  "mset (concat (map snd (foldl addRoutine bs gs))) = mset (concat (map snd bs)) + mset gs"
  by (induction gs arbitrary: bs) (simp_all add: addRoutine_mset)

lemma foldl_addRoutine_members:
  assumes "\<forall>(key, rs) \<in> set bs. \<forall>r \<in> set rs. Equal key (Signature.truncate r)"
  shows "\<forall>(key, rs) \<in> set (foldl addRoutine bs gs). \<forall>r \<in> set rs. Equal key (Signature.truncate r)"
  using assms
proof (induction gs arbitrary: bs)
  case Nil
  then show ?case by simp
next
  case (Cons g gs)
  from Cons.prems have "\<forall>(key, rs) \<in> set (addRoutine bs g). \<forall>r \<in> set rs. Equal key (Signature.truncate r)"
    by (rule addRoutine_members)
  then show ?case
    using Cons.IH by simp
qed

lemma foldl_addRoutine_keys:
  "distinct (map fst bs) \<Longrightarrow> distinct (map fst (foldl addRoutine bs gs))"
  by (induction gs arbitrary: bs) (simp_all add: addRoutine_keys)

text \<open>
  No two keys of the result are \<open>Equal\<close>: during the run at most one key matches
  a routine, whatever the order in which the keys are visited.
\<close>

lemma Bucketize_keys:
  assumes "i < length (Bucketize gs)" and "j < length (Bucketize gs)" and "i \<noteq> j"
  shows "\<not> Equal (fst (Bucketize gs ! i)) (fst (Bucketize gs ! j))"
proof -
  have "distinct (map fst (Bucketize gs))"
    unfolding Bucketize_def by (rule foldl_addRoutine_keys) simp
  with assms show ?thesis
    by (simp add: Equal_eq distinct_conv_nth)
qed

text \<open>
  Claim C9: for every list of routines, the buckets partition it. The numbers of
  members of the buckets add up to the number of routines; the members of all
  buckets together are the routines of the input, each as many times as it occurs
  there, so each routine is in exactly one bucket; and the signature of every
  member of a bucket is \<open>Equal\<close> to the key of the bucket.
\<close>

theorem Bucketize_partition:
  "(\<Sum>b\<leftarrow>Bucketize gs. length (snd b)) = length gs \<and>
   mset (concat (map snd (Bucketize gs))) = mset gs \<and>
   (\<forall>(key, rs) \<in> set (Bucketize gs). \<forall>r \<in> set rs. Equal key (Signature.truncate r))"
proof (intro conjI)
  show "(\<Sum>b\<leftarrow>Bucketize gs. length (snd b)) = length gs"
    by (simp add: Bucketize_def foldl_addRoutine_sizes)
  show "mset (concat (map snd (Bucketize gs))) = mset gs"
    by (simp add: Bucketize_def foldl_addRoutine_mset)
  show "\<forall>(key, rs) \<in> set (Bucketize gs). \<forall>r \<in> set rs. Equal key (Signature.truncate r)"
    unfolding Bucketize_def by (rule foldl_addRoutine_members) simp
qed

theorem Bucketize_partition_witness:
  "Bucketize [routine1, routine2, routine3] =
     [(Signature.truncate routine1, [routine1, routine3]), (Signature.truncate routine2, [routine2])] \<and>
   (\<Sum>b\<leftarrow>Bucketize [routine1, routine2, routine3]. length (snd b)) = 3 \<and>
   Equal (Signature.truncate routine1) (Signature.truncate routine3)"
proof -
  have b: "Bucketize [routine1, routine2, routine3] =
     [(Signature.truncate routine1, [routine1, routine3]), (Signature.truncate routine2, [routine2])]"
    by (simp add: Bucketize_def Equal_def Signature.truncate_def routine1_def routine2_def routine3_def)
  from Bucketize_partition [of "[routine1, routine2, routine3]"] show ?thesis
    unfolding b by simp
qed

section \<open>Facts about the scanner\<close>

declare scanTokens.simps [simp del]

lemma scanTokens_Nil: "scanTokens [] = ([], None)"
  by (simp add: scanTokens.simps)

lemma takeWhile_line:
  "newline \<notin> set l \<Longrightarrow> takeWhile (\<lambda>c. c \<noteq> newline) (l @ newline # rest) = l"
  by (induction l) auto

lemma takeWhile_last: "newline \<notin> set l \<Longrightarrow> takeWhile (\<lambda>c. c \<noteq> newline) l = l"
  by (induction l) auto

lemma scanTokens_too_long:
  assumes "newline \<notin> set l" and "MaxScanTokenSize \<le> length l"
  shows "scanTokens (l @ newline # rest) = ([], Some ErrTooLong)"
    and "scanTokens l = ([], Some ErrTooLong)"
proof -
  show "scanTokens (l @ newline # rest) = ([], Some ErrTooLong)"
    using assms by (subst scanTokens.simps) (simp add: takeWhile_line)
  have "l \<noteq> []"
    using assms(2) by (auto simp: MaxScanTokenSize_def)
  then show "scanTokens l = ([], Some ErrTooLong)"
    using assms by (subst scanTokens.simps) (simp add: takeWhile_last)
qed

lemma scanTokens_line:
  assumes "newline \<notin> set l" and "length l < MaxScanTokenSize"
  shows "scanTokens (l @ newline # rest) = (dropCR l # fst (scanTokens rest), snd (scanTokens rest))"
  using assms by (subst scanTokens.simps) (simp add: takeWhile_line split: prod.split)

lemma scanTokens_last:
  assumes "newline \<notin> set l" and "length l < MaxScanTokenSize" and "l \<noteq> []"
  shows "scanTokens l = ([dropCR l], None)"
  using assms by (subst scanTokens.simps) (simp add: takeWhile_last scanTokens_Nil)

lemma joinLines_Cons: "ls \<noteq> [] \<Longrightarrow> joinLines (l # ls) = l @ newline # joinLines ls"
  by (cases ls) (simp_all add: joinLines_def)

text \<open>Lines that each end in a newline are scanned into themselves.\<close>

lemma scanTokens_joinLines:
  assumes "\<forall>l \<in> set ls. newline \<notin> set l \<and> length l < MaxScanTokenSize"
  shows "scanTokens (joinLines (ls @ [[]])) = (map dropCR ls, None)"
  using assms
proof (induction ls)
  case Nil
  then show ?case by (simp add: joinLines_def scanTokens_Nil)
next
  case (Cons l ls)
  then show ?case
    by (simp add: joinLines_Cons scanTokens_line)
qed

section \<open>Facts about the loop\<close>

lemma run_append:
  "run s (xs @ ys) = (case run s xs of Inl r \<Rightarrow> Inl r | Inr s' \<Rightarrow> run s' ys)"
  by (induction xs arbitrary: s) (auto split: sum.splits)

lemma First_setCreatedByFile [simp]: "First (setCreatedByFile p n g) = First g"
  by (simp add: setCreatedByFile_def)

lemma First_setStackFile [simp]: "First (setStackFile p n g) = First g"
  by (simp add: setStackFile_def)

lemma First_setCreatedByFunc [simp]: "First (setCreatedByFunc f g) = First g"
  by (simp add: setCreatedByFunc_def)

lemma First_appendCall [simp]: "First (appendCall f a g) = First g"
  by (simp add: appendCall_def)

lemma loop_inv_init: "loop_inv init_state"
  by (simp add: loop_inv_def init_state_def)

lemma First_nth_update:
  assumes "k < length xs" and "\<And>g. First (f g) = First g"
  shows "First (xs[i := f (xs ! i)] ! k) = First (xs ! k)"
  using assms by (cases "k = i") simp_all

lemma loop_inv_update:
  assumes "loop_inv s" and "\<And>g. First (f g) = First g"
  shows "loop_inv (s\<lparr>goroutines := (goroutines s)[i := f (goroutines s ! i)]\<rparr>)"
  using assms by (simp add: loop_inv_def First_nth_update)

lemma loop_inv_onHeader: "loop_inv s \<Longrightarrow> goroutine s = None \<Longrightarrow> loop_inv (onHeader s line)"
  by (auto simp: loop_inv_def onHeader_def WriteString_def newGoroutine_def nth_append
      split: option.splits)

lemma loop_inv_onFrame:
  assumes "loop_inv s" and "onFrame s i line = Inr s'"
  shows "loop_inv s'"
proof -
  have upd': "loop_inv (s\<lparr>created := c, goroutines := (goroutines s)[i := f (goroutines s ! i)]\<rparr>)"
    if "\<And>g. First (f g) = First g" for f c
    using loop_inv_update [OF assms(1) that, of i] by (simp add: loop_inv_def)
  have upd0: "loop_inv (s\<lparr>goroutines := (goroutines s)[i := f (goroutines s ! i)]\<rparr>)"
    if "\<And>g. First (f g) = First g" for f
    using loop_inv_update [OF assms(1) that, of i] .
  have closed: "loop_inv ((WriteString s x)\<lparr>goroutine := None\<rparr>)" for x
    using assms(1) by (simp add: loop_inv_def WriteString_def)
  from assms(2) show ?thesis
    by (auto simp: onFrame_def upd' upd0 closed split: option.splits if_splits prod.splits)
qed

lemma loop_inv_step:
  assumes "loop_inv s" and "step s line = Inr s'"
  shows "loop_inv s'"
proof (cases "length line = 0")
  case True
  with assms have "s' = s\<lparr>goroutine := None\<rparr> \<or> s' = (WriteString s [newline])\<lparr>goroutine := None\<rparr>"
    by (auto simp: step_def)
  with assms(1) show ?thesis
    by (auto simp: loop_inv_def WriteString_def)
next
  case False
  show ?thesis
  proof (cases "goroutine s")
    case None
    with False assms show ?thesis
      by (auto simp: step_def loop_inv_onHeader)
  next
    case (Some i)
    with False assms(2) have "onFrame s i line = Inr s'"
      by (simp add: step_def)
    with assms(1) show ?thesis
      by (rule loop_inv_onFrame)
  qed
qed

lemma loop_inv_run: "loop_inv s \<Longrightarrow> run s ls = Inr s' \<Longrightarrow> loop_inv s'"
proof (induction ls arbitrary: s)
  case Nil
  then show ?case by simp
next
  case (Cons l ls)
  then show ?case
    by (auto split: sum.splits dest: loop_inv_step)
qed

text \<open>An iteration that leaves the function returns an error or panics.\<close>

lemma step_Inl: "step s line = Inl r \<Longrightarrow> fst r \<noteq> Returns gs None"
  by (auto simp: step_def onFrame_def split: option.splits if_splits prod.splits)

lemma run_Inl: "run s ls = Inl r \<Longrightarrow> fst r \<noteq> Returns gs None"
proof (induction ls arbitrary: s)
  case Nil
  then show ?case by simp
next
  case (Cons l ls)
  then show ?case
    by (auto split: sum.splits dest: step_Inl)
qed

section \<open>File lines the parser does not take\<close>

text \<open>
  Claim C2 asks that a file line naming an assembly file, or ending in
  \<open>fp=\<close> and \<open>sp=\<close>, be parsed into the source path and line of its frame and never
  be sent to the auxiliary writer. On the dump of \<^verbatim>\<open>TestParseDumpAsm\<close> the file
  line matches none of the three expressions: it is written to the auxiliary
  writer, the routine is closed, and its frame keeps an empty source path and
  line 0.
\<close>

theorem asm_file_line_diverted:
  "ParseDump asm_input =
     (Returns [\<lparr>State = ''garbage collection'',
                Stack = [\<lparr>SourcePath = [], Line = 0, Func = \<lparr>Raw = ''runtime.switchtoM''\<rparr>,
                          Args = []\<rparr>],
                CreatedBy = zeroCall, ID = 16, First = True\<rparr>] None,
      ''panic: reflect.Set: value of type'' @ [newline, newline] @ asm_line @ [newline])"
proof -
  have scan: "scanTokens asm_input =
      ([''panic: reflect.Set: value of type'', '''', ''goroutine 16 [garbage collection]:'',
        ''runtime.switchtoM()'', asm_line], None)"
    unfolding asm_input_def
    using scanTokens_joinLines [of "[''panic: reflect.Set: value of type'', '''',
        ''goroutine 16 [garbage collection]:'', ''runtime.switchtoM()'', asm_line]"]
    by (simp add: asm_line_def newline_def tab_def carriage_def dropCR_def MaxScanTokenSize_def)
  have h1: "reRoutineHeader ''panic: reflect.Set: value of type'' = None"
    by code_simp
  have h2: "reRoutineHeader ''goroutine 16 [garbage collection]:'' = Some (''16'', ''garbage collection'')"
    by code_simp
  have h3: "Atoi ''16'' = Some 16"
    by code_simp
  have f1: "reFile ''runtime.switchtoM()'' = None"
    by code_simp
  have f2: "reCreated ''runtime.switchtoM()'' = None"
    by code_simp
  have f3: "reFunc ''runtime.switchtoM()'' = Some (''runtime.switchtoM'', [])"
    by code_simp
  have a1: "reFile asm_line = None"
    unfolding asm_line_def by code_simp
  have a2: "reCreated asm_line = None"
    unfolding asm_line_def by code_simp
  have a3: "reFunc asm_line = None"
    unfolding asm_line_def by code_simp
  have a4: "asm_line \<noteq> []"
    by (simp add: asm_line_def)
  show ?thesis
    by (simp add: ParseDump_def scan step_def onHeader_def onFrame_def init_state_def
        WriteString_def newGoroutine_def appendCall_def h1 h2 h3 f1 f2 f3 a1 a2 a3 a4)
qed

section \<open>Lines longer than the scanner's buffer\<close>

lemma ParseDump_too_long:
  assumes "newline \<notin> set l" and "MaxScanTokenSize \<le> length l"
  shows "ParseDump (l @ newline # rest) = (Returns [] (Some ErrTooLong), [])"
    and "ParseDump l = (Returns [] (Some ErrTooLong), [])"
  using assms by (simp_all add: ParseDump_def scanTokens_too_long init_state_def)

text \<open>
  Claim C5 asks that a line longer than the scanner's limit, before the first
  routine header, be streamed to the auxiliary writer and that the routines after it
  be parsed with a nil error. On \<open>long_line_input\<close> the scanner stops at the long
  line: the call returns no routine and the error \<^verbatim>\<open>bufio.ErrTooLong\<close>, and
  nothing has been written.
\<close>

theorem long_line_fails: "ParseDump long_line_input = (Returns [] (Some ErrTooLong), [])"
proof -
  have eq: "long_line_input = replicate (MaxScanTokenSize + 1) (CHR ''a'') @ newline #
      joinLines [''panic: reflect.Set: value of type'', '''', ''goroutine 1 [running]:'',
        ''main.main()'', tab # ''/gopath/src/github.com/maruel/panicparse/stack/stack.go:428 +0x27'', '''']"
    unfolding long_line_input_def by (rule joinLines_Cons) simp
  show ?thesis
    unfolding eq by (rule ParseDump_too_long(1)) (simp_all add: newline_def)
qed

text \<open>
  Input that holds nothing but blanks, carriage returns and newlines, in lines
  that the scanner can take, is echoed whole and gives no routine and no error.
\<close>

lemma reRoutineHeader_blank: "t \<noteq> [] \<Longrightarrow> set t \<subseteq> {space} \<Longrightarrow> reRoutineHeader t = None"
  by (cases t) (auto simp: reRoutineHeader_def stripPrefix_def space_def)

lemma run_blank_tokens:
  assumes "\<forall>t \<in> set ts. set t \<subseteq> {space}" and "goroutine s = None"
  shows "run s ts = Inr (s\<lparr>out := out s @ concat (map (\<lambda>t. t @ [newline]) ts)\<rparr>)"
  using assms
proof (induction ts arbitrary: s)
  case Nil
  then show ?case by simp
next
  case (Cons t ts)
  have "step s t = Inr (WriteString s (t @ [newline]))"
  proof (cases "t = []")
    case True
    with Cons.prems(2) show ?thesis
      by (simp add: step_def WriteString_def)
  next
    case False
    with Cons.prems have "reRoutineHeader t = None"
      by (simp add: reRoutineHeader_blank)
    with False Cons.prems(2) show ?thesis
      by (simp add: step_def onHeader_def)
  qed
  moreover have "goroutine (WriteString s (t @ [newline])) = None"
    using Cons.prems(2) by (simp add: WriteString_def)
  ultimately show ?case
    using Cons.IH [of "WriteString s (t @ [newline])"] Cons.prems(1)
    by (simp add: WriteString_def)
qed

lemma ParseDump_blank_tokens:
  assumes "scanTokens input = (ts, None)" and "\<forall>t \<in> set ts. set t \<subseteq> {space}"
  shows "ParseDump input = (Returns [] None, concat (map (\<lambda>t. t @ [newline]) ts))"
  using assms run_blank_tokens [of ts init_state]
  by (simp add: ParseDump_def init_state_def)

text \<open>
  Claim C10 asks for an empty routine list and a nil error on every input of
  blanks only. On a single line of \<open>MaxScanTokenSize\<close> blanks the scanner gives
  up as it does on any line of that length, and the call returns the error
  \<^verbatim>\<open>bufio.ErrTooLong\<close>.
\<close>

theorem blank_line_too_long: "ParseDump blank_line_input = (Returns [] (Some ErrTooLong), [])"
  unfolding blank_line_input_def
  by (rule ParseDump_too_long(2)) (simp_all add: newline_def space_def)

section \<open>A line number that does not fit\<close>

lemma isDigit_not_sign: "isDigit c \<Longrightarrow> c \<noteq> CHR ''+'' \<and> c \<noteq> CHR ''-''"
  by (auto simp: isDigit_def less_eq_char_def)

lemma digitVal_nonneg: "isDigit c \<Longrightarrow> 0 \<le> digitVal c"
  by (simp add: isDigit_def digitVal_def less_eq_char_def)

lemma foldl_decimal_nonneg:
  "0 \<le> a \<Longrightarrow> list_all isDigit ds \<Longrightarrow> 0 \<le> foldl (\<lambda>a c. 10 * a + digitVal c) a ds"
  by (induction ds arbitrary: a) (simp_all add: digitVal_nonneg)

text \<open>On a run of digits, \<open>Atoi\<close> fails exactly when the number is \<open>2 ^ 63\<close> or more.\<close>

lemma Atoi_digits:
  assumes "ds \<noteq> []" and "list_all isDigit ds"
  shows "Atoi ds = (if decimal ds < 2 ^ 63 then Some (decimal ds) else None)"
proof -
  from assms have "isDigit (hd ds)"
    by (cases ds) simp_all
  then have sign: "hd ds \<noteq> CHR ''+''" "hd ds \<noteq> CHR ''-''"
    by (simp_all add: isDigit_not_sign)
  have "0 \<le> decimal ds"
    unfolding decimal_def using assms(2) by (rule foldl_decimal_nonneg [rotated]) simp
  with assms sign show ?thesis
    by (simp add: Atoi_def)
qed

lemma reFile_tail_digits: "reFile_tail t = Some ds \<Longrightarrow> ds \<noteq> [] \<and> list_all isDigit ds"
  by (auto simp: reFile_tail_def Let_def list_all_iff split: if_splits option.splits
      dest: set_takeWhileD)

lemma reFile_digits: "reFile line = Some (p, ds) \<Longrightarrow> ds \<noteq> [] \<and> list_all isDigit ds"
  by (auto simp: reFile_def Let_def split: if_splits option.splits dest: reFile_tail_digits)

lemma reFile_nonempty: "reFile line = Some m \<Longrightarrow> line \<noteq> []"
  by (auto simp: reFile_def)

text \<open>
  Claim C7: when the scanner delivers, while a routine is open, a line that matches
  the file line expression and whose line number is \<open>2 ^ 63\<close> or more, the call
  returns at that line: the error is the one whose text is
  \<open>failed to parse int on line:\<close> followed by the line in quotes, the routine list
  is the one the lines before have built, frames of the open routine included,
  and nothing more is written. Here \<open>s\<close> is the state after the lines \<open>pre\<close>.
\<close>

theorem line_number_overflow:
  assumes "scanTokens input = (pre @ line # rest, e)"
    and "run init_state pre = Inr s"
    and "goroutine s = Some i"
    and "reFile line = Some (path, num)"
    and "2 ^ 63 \<le> decimal num"
  shows "ParseDump input = (Returns (goroutines s) (Some (ErrParseInt line)), out s) \<and>
         Error (ErrParseInt line) =
           ''failed to parse int on line: '' @ [CHR 0x22] @ line @ [CHR 0x22]"
proof -
  from assms(4) have "num \<noteq> []" and "list_all isDigit num"
    by (simp_all add: reFile_digits)
  with assms(5) have "Atoi num = None"
    by (simp add: Atoi_digits)
  moreover from assms(4) have "line \<noteq> []"
    by (rule reFile_nonempty)
  ultimately have "step s line = Inl (Returns (goroutines s) (Some (ErrParseInt line)), out s)"
    using assms(3,4) by (simp add: step_def onFrame_def)
  with assms(2) have "run init_state (pre @ line # rest) =
      Inl (Returns (goroutines s) (Some (ErrParseInt line)), out s)"
    by (simp add: run_append)
  with assms(1) show ?thesis
    by (simp add: ParseDump_def Error_def)
qed

theorem line_number_overflow_witness:
  "ParseDump overflow_input =
     (Returns [\<lparr>State = ''running'',
                Stack = [\<lparr>SourcePath = [], Line = 0, Func = \<lparr>Raw = ''main.recurseType''\<rparr>,
                          Args = []\<rparr>],
                CreatedBy = zeroCall, ID = 1, First = True\<rparr>]
        (Some (ErrParseInt overflow_line)), [])"
proof -
  let ?g = "\<lparr>State = ''running'',
              Stack = [\<lparr>SourcePath = [], Line = 0, Func = \<lparr>Raw = ''main.recurseType''\<rparr>,
                        Args = []\<rparr>],
              CreatedBy = zeroCall, ID = 1, First = True\<rparr>"
  let ?s = "\<lparr>goroutines = [?g], goroutine = Some 0, created = False, out = []\<rparr>"
  have scan: "scanTokens overflow_input =
      ([''goroutine 1 [running]:'', ''main.recurseType()''] @ overflow_line # [''main.main()''], None)"
    unfolding overflow_input_def
    using scanTokens_joinLines [of "[''goroutine 1 [running]:'', ''main.recurseType()'',
        overflow_line, ''main.main()'']"]
    by (simp add: overflow_line_def newline_def tab_def carriage_def dropCR_def MaxScanTokenSize_def)
  have h: "reRoutineHeader ''goroutine 1 [running]:'' = Some (''1'', ''running'')"
    by code_simp
  have a: "Atoi ''1'' = Some 1"
    by code_simp
  have f1: "reFile ''main.recurseType()'' = None"
    by code_simp
  have f2: "reCreated ''main.recurseType()'' = None"
    by code_simp
  have f3: "reFunc ''main.recurseType()'' = Some (''main.recurseType'', [])"
    by code_simp
  have pre: "run init_state [''goroutine 1 [running]:'', ''main.recurseType()''] = Inr ?s"
    by (simp add: step_def onHeader_def onFrame_def init_state_def newGoroutine_def
        appendCall_def h a f1 f2 f3)
  have fl: "reFile overflow_line = Some (''/gopath/src/pkg/stack.go'', ''12345678901234567890'')"
    unfolding overflow_line_def by code_simp
  have big: "2 ^ 63 \<le> decimal ''12345678901234567890''"
    by code_simp
  from line_number_overflow [OF scan pre _ fl big, of 0] show ?thesis
    by simp
qed

section \<open>The routine marked first\<close>

text \<open>
  Claim C8 as stated: on every input that is parsed without error, exactly one
  routine of the result is marked first. The empty input is parsed without error
  and gives no routine at all, so none is marked.
\<close>

theorem no_first_counterexample:
  "ParseDump [] = (Returns [] None, []) \<and> length (filter First ([] :: Goroutine list)) = 0"
  by (simp add: ParseDump_def scanTokens_Nil init_state_def)

text \<open>
  Claim C8, amended: on every input that is parsed without error into a list that
  is not empty, the routine at the head of the list is marked first and no routine
  after it is.
\<close>

theorem first_routine_only:
  assumes "ParseDump input = (Returns gs None, w)" and "gs \<noteq> []"
  shows "First (hd gs) \<and> (\<forall>g \<in> set (tl gs). \<not> First g)"
proof -
  obtain ts e where scan: "scanTokens input = (ts, e)"
    by (cases "scanTokens input")
  show ?thesis
  proof (cases "run init_state ts")
    case (Inl r)
    with assms(1) scan have "fst r = Returns gs None"
      by (simp add: ParseDump_def)
    with Inl show ?thesis
      by (simp add: run_Inl)
  next
    case (Inr s)
    with assms(1) scan have gs: "gs = goroutines s"
      by (simp add: ParseDump_def)
    from loop_inv_init Inr have "loop_inv s"
      by (rule loop_inv_run)
    then have marks: "\<forall>k < length gs. First (gs ! k) = (k = 0)"
      by (simp add: loop_inv_def gs)
    with assms(2) have "First (hd gs)"
      by (simp add: hd_conv_nth)
    moreover have "\<not> First g" if "g \<in> set (tl gs)" for g
    proof -
      from that obtain k where "k < length (tl gs)" and "g = tl gs ! k"
        by (auto simp: in_set_conv_nth)
      then have "Suc k < length gs" and "g = gs ! Suc k"
        by (simp_all add: nth_tl)
      with marks show ?thesis
        by simp
    qed
    ultimately show ?thesis
      by blast
  qed
qed

theorem first_routine_only_witness:
  "ParseDump two_routines_input =
     (Returns
        [\<lparr>State = ''running'',
          Stack = [\<lparr>SourcePath = ''/x/a.go'', Line = 1, Func = \<lparr>Raw = ''main.a''\<rparr>, Args = []\<rparr>],
          CreatedBy = zeroCall, ID = 1, First = True\<rparr>,
         \<lparr>State = ''chan send'',
          Stack = [\<lparr>SourcePath = ''/x/b.go'', Line = 2, Func = \<lparr>Raw = ''main.b''\<rparr>, Args = []\<rparr>],
          CreatedBy = zeroCall, ID = 2, First = False\<rparr>] None, []) \<and>
   map First (case fst (ParseDump two_routines_input) of Returns gs e \<Rightarrow> gs | Panics p \<Rightarrow> []) =
     [True, False]"
proof -
  have scan: "scanTokens two_routines_input =
      ([''goroutine 1 [running]:'', ''main.a()'', tab # ''/x/a.go:1'', '''',
        ''goroutine 2 [chan send]:'', ''main.b()'', tab # ''/x/b.go:2''], None)"
    unfolding two_routines_input_def
    using scanTokens_joinLines [of "[''goroutine 1 [running]:'', ''main.a()'', tab # ''/x/a.go:1'', '''',
        ''goroutine 2 [chan send]:'', ''main.b()'', tab # ''/x/b.go:2'']"]
    by (simp add: newline_def tab_def carriage_def dropCR_def MaxScanTokenSize_def)
  have h1: "reRoutineHeader ''goroutine 1 [running]:'' = Some (''1'', ''running'')"
    by code_simp
  have h2: "reRoutineHeader ''goroutine 2 [chan send]:'' = Some (''2'', ''chan send'')"
    by code_simp
  have n1: "Atoi ''1'' = Some 1"
    by code_simp
  have n2: "Atoi ''2'' = Some 2"
    by code_simp
  have a1: "reFile ''main.a()'' = None"
    by code_simp
  have a2: "reCreated ''main.a()'' = None"
    by code_simp
  have a3: "reFunc ''main.a()'' = Some (''main.a'', [])"
    by code_simp
  have b1: "reFile ''main.b()'' = None"
    by code_simp
  have b2: "reCreated ''main.b()'' = None"
    by code_simp
  have b3: "reFunc ''main.b()'' = Some (''main.b'', [])"
    by code_simp
  have fa: "reFile (tab # ''/x/a.go:1'') = Some (''/x/a.go'', ''1'')"
    by code_simp
  have fb: "reFile (tab # ''/x/b.go:2'') = Some (''/x/b.go'', ''2'')"
    by code_simp
  have parse: "ParseDump two_routines_input =
     (Returns
        [\<lparr>State = ''running'',
          Stack = [\<lparr>SourcePath = ''/x/a.go'', Line = 1, Func = \<lparr>Raw = ''main.a''\<rparr>, Args = []\<rparr>],
          CreatedBy = zeroCall, ID = 1, First = True\<rparr>,
         \<lparr>State = ''chan send'',
          Stack = [\<lparr>SourcePath = ''/x/b.go'', Line = 2, Func = \<lparr>Raw = ''main.b''\<rparr>, Args = []\<rparr>],
          CreatedBy = zeroCall, ID = 2, First = False\<rparr>] None, [])"
    by (simp add: ParseDump_def scan step_def onHeader_def onFrame_def init_state_def
        newGoroutine_def appendCall_def setStackFile_def h1 h2 n1 n2 a1 a2 a3 b1 b2 b3 fa fb)
  from first_routine_only [OF parse] show ?thesis
    unfolding parse by simp
qed

section \<open>Empty lines\<close>

text \<open>
  Claim C6 as stated: an empty line is echoed only if no routine header has been
  seen before it. On a header followed by two empty lines, the first empty line
  closes the routine and is swallowed, and the second is written to the auxiliary
  writer although the header came before it.
\<close>

theorem blank_after_routine_counterexample:
  "ParseDump two_blanks_input =
     (Returns [\<lparr>State = ''running'', Stack = [], CreatedBy = zeroCall, ID = 1, First = True\<rparr>] None,
      [newline])"
proof -
  have scan: "scanTokens two_blanks_input = ([''goroutine 1 [running]:'', '''', ''''], None)"
    unfolding two_blanks_input_def
    using scanTokens_joinLines [of "[''goroutine 1 [running]:'', '''', '''']"]
    by (simp add: newline_def carriage_def dropCR_def MaxScanTokenSize_def)
  have h: "reRoutineHeader ''goroutine 1 [running]:'' = Some (''1'', ''running'')"
    by code_simp
  have n: "Atoi ''1'' = Some 1"
    by code_simp
  show ?thesis
    by (simp add: ParseDump_def scan step_def onHeader_def init_state_def newGoroutine_def
        WriteString_def h n)
qed

lemma step_blank:
  "step s [] = Inr (s\<lparr>goroutine := None,
                      out := (if goroutine s = None then out s @ [newline] else out s)\<rparr>)"
  by (simp add: step_def WriteString_def)

text \<open>
  Claim C6, amended: an empty line is echoed to the auxiliary writer exactly when
  no routine is open at the time it is read, and after it no routine is open. No
  routine is open before the first header has been taken. So the empty line that
  ends a routine is swallowed, and an empty line that follows an empty line is
  echoed, also after a routine. Here \<open>s\<close> is the state after the lines \<open>pre\<close>;
  the two equations give the state after one and after two empty lines that
  follow them.
\<close>

theorem blank_line_echo:
  assumes "run init_state pre = Inr s"
  shows "(goroutines s = [] \<longrightarrow> goroutine s = None) \<and>
         run init_state (pre @ [[]]) =
           Inr (s\<lparr>goroutine := None,
                  out := (if goroutine s = None then out s @ [newline] else out s)\<rparr>) \<and>
         run init_state (pre @ [[], []]) =
           Inr (s\<lparr>goroutine := None,
                  out := (if goroutine s = None then out s @ [newline] else out s) @ [newline]\<rparr>)"
proof (intro conjI)
  from loop_inv_init assms have "loop_inv s"
    by (rule loop_inv_run)
  then show "goroutines s = [] \<longrightarrow> goroutine s = None"
    by (cases "goroutine s") (auto simp: loop_inv_def)
next
  show "run init_state (pre @ [[]]) =
      Inr (s\<lparr>goroutine := None,
             out := (if goroutine s = None then out s @ [newline] else out s)\<rparr>)"
    using assms by (simp add: run_append step_blank)
next
  show "run init_state (pre @ [[], []]) =
      Inr (s\<lparr>goroutine := None,
             out := (if goroutine s = None then out s @ [newline] else out s) @ [newline]\<rparr>)"
    using assms by (simp add: run_append step_blank)
qed

theorem blank_line_echo_witness:
  "run init_state ([''goroutine 1 [running]:''] @ [[]]) =
     Inr \<lparr>goroutines = [\<lparr>State = ''running'', Stack = [], CreatedBy = zeroCall, ID = 1, First = True\<rparr>],
          goroutine = None, created = False, out = []\<rparr> \<and>
   run init_state ([''goroutine 1 [running]:''] @ [[], []]) =
     Inr \<lparr>goroutines = [\<lparr>State = ''running'', Stack = [], CreatedBy = zeroCall, ID = 1, First = True\<rparr>],
          goroutine = None, created = False, out = [newline]\<rparr>"
proof -
  have h: "reRoutineHeader ''goroutine 1 [running]:'' = Some (''1'', ''running'')"
    by code_simp
  have n: "Atoi ''1'' = Some 1"
    by code_simp
  have pre: "run init_state [''goroutine 1 [running]:''] =
      Inr \<lparr>goroutines = [\<lparr>State = ''running'', Stack = [], CreatedBy = zeroCall, ID = 1, First = True\<rparr>],
           goroutine = Some 0, created = False, out = []\<rparr>"
    by (simp add: step_def onHeader_def init_state_def newGoroutine_def h n)
  from blank_line_echo [OF pre] show ?thesis
    by simp
qed

end
